theory Spec2Isabelle
  imports Main
begin

section \<open>Email-verified account lifecycle of the user controller\<close>

text \<open>
  The controller functions \<open>registerUser\<close>, \<open>verifyEmail\<close> and \<open>signinCustomer\<close>
  and the mail helper \<open>sendVerificationEmail\<close> are embedded as pure functions.
  The MongoDB collection behind the \<open>User\<close> model is a list of documents in insertion
  order; the position of a document stands for its \<open>_id\<close>. Everything the controller
  awaits from outside (Firebase, the SMTP transport, bcrypt, the random source, the clock)
  is an input of the function, and every awaited call and console line is recorded, in
  program order, in the list of effects that the function returns.
  Calls that the controller does not wrap in \<open>try\<close>/\<open>catch\<close> (\<open>User.findOne\<close>,
  \<open>bcrypt.hash\<close>, \<open>user.save\<close>) are taken to resolve.
\<close>

subsection \<open>Stored documents\<close>

record user =
  email :: string
  password :: string
  username :: "string option"
  phone :: "string option"
  name :: "string option"
  experience :: string
  level :: int
  role :: int
  user_note :: string
  avatarUrl :: string
  favorites :: "string list"
  histories :: "string list"
  isVerified :: bool
  verificationToken :: "string option"
  verificationTokenExpires :: "int option"

text \<open>
  A request field is absent (\<open>None\<close>) or a string. \<open>!x\<close> in the source holds for an
  absent field and for the empty string.
\<close>

fun truthy :: "string option \<Rightarrow> bool" where
  "truthy None = False"
| "truthy (Some s) = (s \<noteq> [])"

text \<open>The string of a field that is present; \<open>a || b\<close> on strings.\<close>

fun str :: "string option \<Rightarrow> string" where
  "str None = []"
| "str (Some s) = s"

definition orElse :: "string option \<Rightarrow> string \<Rightarrow> string" where
  "orElse a b = (if truthy a then str a else b)"

subsection \<open>Responses and effects\<close>

text \<open>
  \<open>TokenRequiredPage\<close> is the page with the line "Verification token is required.",
  \<open>InvalidTokenPage\<close> the one with "Invalid or expired verification token. Please
  request a new verification email.", \<open>VerifiedPage\<close> the one headed "Email Verified
  Successfully!".
\<close>

datatype page = TokenRequiredPage | InvalidTokenPage | VerifiedPage

text \<open>
  \<open>RegisterBody message success\<close> is the JSON object of a registration;
  \<open>LoginBody success message id email name username idToken\<close> that of a login.
\<close>

datatype json_body =
    RegisterBody string bool
  | LoginBody bool string nat string "string option" "string option" string

text \<open>
  \<open>Json n b\<close> is \<open>res.status(n).json(b)\<close>, \<open>Send n p\<close> is \<open>res.status(n).send(p)\<close>, and
  \<open>Throw n m\<close> is \<open>res.status(n); throw new Error(m)\<close>, which the async handler passes
  on to the error middleware of the server.
\<close>

datatype response =
    Json nat json_body
  | Send nat page
  | Throw nat string

fun status :: "response \<Rightarrow> nat" where
  "status (Json n b) = n"
| "status (Send n p) = n"
| "status (Throw n m) = n"

text \<open>An error thrown by the Firebase client: its \<open>code\<close> and its \<open>message\<close>.\<close>

record fb_error =
  code :: string
  message :: string

datatype effect =
    FindOneByEmail string
  | FindOneByToken string int
  | BcryptHash string nat
  | FirebaseCreateUser string string
  | UserCreate user
  | UserSave nat user
  | SendMail string string
  | FirebaseSignIn string string
  | GetIdToken
  | ConsoleLog string string
  | ConsoleError string string

record outcome =
  resp :: response
  store :: "user list"
  effects :: "effect list"

subsection \<open>The record store\<close>

text \<open>
  \<open>User.findOne(filter)\<close>: the first document, in insertion order, that satisfies the
  filter, with its position.
\<close>

fun findOneFrom :: "nat \<Rightarrow> (user \<Rightarrow> bool) \<Rightarrow> user list \<Rightarrow> (nat \<times> user) option" where
  "findOneFrom i P [] = None"
| "findOneFrom i P (u # us) = (if P u then Some (i, u) else findOneFrom (Suc i) P us)"

definition findOne :: "(user \<Rightarrow> bool) \<Rightarrow> user list \<Rightarrow> (nat \<times> user) option" where
  "findOne P db = findOneFrom 0 P db"

text \<open>The filter \<open>{ email }\<close>: an equality match on the field as it was sent.\<close>

definition byEmail :: "string \<Rightarrow> user \<Rightarrow> bool" where
  "byEmail e u = (email u = e)"

text \<open>
  The filter \<open>{ verificationToken: token, verificationTokenExpires: { $gt: new Date() } }\<close>.
  A document without an expiry does not match a \<open>$gt\<close> comparison.
\<close>

definition byLiveToken :: "string \<Rightarrow> int \<Rightarrow> user \<Rightarrow> bool" where
  "byLiveToken t now u =
     (verificationToken u = Some t \<and>
      (case verificationTokenExpires u of None \<Rightarrow> False | Some x \<Rightarrow> now < x))"

subsection \<open>The mail helper\<close>

text \<open>
  \<open>sendVerificationEmail(email, verificationToken, baseUrl)\<close>. The first argument is
  what \<open>transporter.sendMail\<close> does: it rejects with a message (\<open>Inl\<close>) or resolves with a
  message id (\<open>Inr\<close>). The helper logs and rethrows a failure.
\<close>

definition sendVerificationEmail ::
  "string + string \<Rightarrow> string \<Rightarrow> string \<Rightarrow> string \<Rightarrow> (string + string) \<times> effect list" where
  "sendVerificationEmail sendMail to tok baseUrl =
     (let verificationLink = baseUrl @ ''/api/users/verify-email?token='' @ tok in
      case sendMail of
        Inr messageId \<Rightarrow>
          (Inr messageId,
           [SendMail to verificationLink, ConsoleLog ''Verification email sent:'' messageId])
      | Inl m \<Rightarrow>
          (Inl (''Failed to send verification email: '' @ m),
           [SendMail to verificationLink, ConsoleError ''Error sending verification email:'' m]))"

subsection \<open>Registration\<close>

text \<open>
  What \<open>registerUser\<close> obtains from outside: the clock (milliseconds), the bcrypt digest,
  the 32 random bytes in hexadecimal, the result of \<open>createUserWithEmailAndPassword\<close>
  (an error or the new uid), the result of \<open>User.create\<close> (\<open>Some\<close> error message when it
  rejects), the result of the SMTP transport, and the variable \<open>BACKEND_URL\<close>.
\<close>

record reg_env =
  regNow :: int
  bcryptDigest :: string
  randomHex :: string
  firebaseCreate :: "fb_error + string"
  mongoCreate :: "string option"
  smtp :: "string + string"
  backendUrl :: "string option"

text \<open>
  \<open>setHours(getHours() + 24)\<close> moves the date one day ahead: 24 hours, in a time zone
  without a clock change in between.
\<close>

definition plus24h :: "int \<Rightarrow> int" where
  "plus24h t = t + 24 * 60 * 60 * 1000"

definition newUserObject ::
  "string \<Rightarrow> string \<Rightarrow> string option \<Rightarrow> string option \<Rightarrow> string \<Rightarrow> int \<Rightarrow> user" where
  "newUserObject e hashedPassword uname ph tok expires =
     \<lparr> email = e, password = hashedPassword, username = uname, phone = ph, name = None,
       experience = '''', level = 0, role = 0, user_note = '''', avatarUrl = '''',
       favorites = [], histories = [], isVerified = False,
       verificationToken = Some tok, verificationTokenExpires = Some expires \<rparr>"

definition userExistsMsg :: string where
  "userExistsMsg = ''A user with that email already exists''"

definition registeredMsg :: string where
  "registeredMsg =
     ''User registered successfully. Please check your email to verify your account.''"

text \<open>
  The part of \<open>registerUser\<close> after the two required fields have been found present.
  \<open>User.create\<close> resolves to the created document, so the final \<open>if (user)\<close> of the
  source always takes its first branch.
\<close>

definition registerChecked ::
  "reg_env \<Rightarrow> string \<Rightarrow> string \<Rightarrow> string option \<Rightarrow> string option \<Rightarrow> user list \<Rightarrow> outcome" where
  "registerChecked env e p uname ph db =
     (case findOne (byEmail e) db of
        Some userExists \<Rightarrow>
          \<lparr> resp = Throw 400 userExistsMsg, store = db, effects = [FindOneByEmail e] \<rparr>
      | None \<Rightarrow>
          (let hashedPassword = bcryptDigest env;
               tok = randomHex env;
               expires = plus24h (regNow env);
               pre = [FindOneByEmail e, BcryptHash p 10, FirebaseCreateUser e p]
           in case firebaseCreate env of
                Inl err \<Rightarrow>
                  (if code err = ''auth/email-already-in-use''
                   then \<lparr> resp = Throw 400 userExistsMsg, store = db,
                          effects = pre @ [ConsoleError ''Firebase user creation error:'' (message err)] \<rparr>
                   else \<lparr> resp = Throw 500 (''Error creating Firebase user: '' @ message err),
                          store = db,
                          effects = pre @ [ConsoleError ''Firebase user creation error:'' (message err)] \<rparr>)
              | Inr uid \<Rightarrow>
                  (let doc = newUserObject e hashedPassword uname ph tok expires;
                       pre2 = pre @ [ConsoleLog ''Firebase user created:'' uid, UserCreate doc]
                   in case mongoCreate env of
                        Some m \<Rightarrow>
                          \<lparr> resp = Throw 500 (''Error creating user: '' @ m), store = db,
                            effects = pre2 @ [ConsoleLog ''MongoDB user creation error:'' m] \<rparr>
                      | None \<Rightarrow>
                          (let baseUrl = orElse (backendUrl env) ''http://localhost:5004'';
                               sent = sendVerificationEmail (smtp env) e tok baseUrl;
                               logged = (case fst sent of
                                           Inr messageId \<Rightarrow> [ConsoleLog ''Verification email sent to'' e]
                                         | Inl m \<Rightarrow> [ConsoleError ''Error sending verification email:'' m])
                           in \<lparr> resp = Json 200 (RegisterBody registeredMsg True),
                                store = db @ [doc],
                                effects = pre2 @ snd sent @ logged \<rparr>))))"

definition registerUser ::
  "reg_env \<Rightarrow> string option \<Rightarrow> string option \<Rightarrow> string option \<Rightarrow> string option \<Rightarrow>
   user list \<Rightarrow> outcome" where
  "registerUser env reqEmail reqPassword reqUsername reqPhone db =
     (if \<not> truthy reqEmail
      then \<lparr> resp = Throw 400 ''Please add email'', store = db, effects = [] \<rparr>
      else if \<not> truthy reqPassword
      then \<lparr> resp = Throw 400 ''Please add password'', store = db, effects = [] \<rparr>
      else registerChecked env (str reqEmail) (str reqPassword)
             reqUsername reqPhone db)"

subsection \<open>Verification\<close>

text \<open>
  \<open>verifyEmail\<close> at clock reading \<open>now\<close>, with the \<open>token\<close> query parameter.
  \<open>user.save()\<close> writes the changed document back at its own position.
\<close>

definition markVerified :: "user \<Rightarrow> user" where
  "markVerified u =
     u\<lparr> isVerified := True, verificationToken := None, verificationTokenExpires := None \<rparr>"

definition verifyEmail :: "int \<Rightarrow> string option \<Rightarrow> user list \<Rightarrow> outcome" where
  "verifyEmail now reqToken db =
     (if \<not> truthy reqToken
      then \<lparr> resp = Send 400 TokenRequiredPage, store = db, effects = [] \<rparr>
      else
        (let t = str reqToken in
         case findOne (byLiveToken t now) db of
           None \<Rightarrow>
             \<lparr> resp = Send 400 InvalidTokenPage, store = db,
               effects = [FindOneByToken t now] \<rparr>
         | Some (i, u) \<Rightarrow>
             \<lparr> resp = Send 200 VerifiedPage, store = db[i := markVerified u],
               effects = [FindOneByToken t now, UserSave i (markVerified u)] \<rparr>))"

subsection \<open>Login\<close>

text \<open>
  What \<open>signinCustomer\<close> obtains from outside: the result of
  \<open>signInWithEmailAndPassword\<close> (an error or the uid of the credential) and the result
  of \<open>getIdToken\<close> (an error or the token).
\<close>

record login_env =
  firebaseSignIn :: "fb_error + string"
  idTokenResult :: "fb_error + string"

definition invalidLoginMsg :: string where
  "invalidLoginMsg = ''Invalid email or password''"

definition unverifiedMsg :: string where
  "unverifiedMsg =
     ''Please verify your email address before logging in. Check your inbox for the verification email.''"

text \<open>The \<open>catch\<close> block around the two Firebase calls of \<open>signinCustomer\<close>.\<close>

definition signinCatch :: "fb_error \<Rightarrow> user list \<Rightarrow> effect list \<Rightarrow> outcome" where
  "signinCatch err db sofar =
     (if code err = ''auth/user-not-found'' \<or> code err = ''auth/wrong-password''
         \<or> code err = ''auth/invalid-credential''
      then \<lparr> resp = Throw 401 invalidLoginMsg, store = db,
             effects = sofar @ [ConsoleError ''Firebase authentication error:'' (message err)] \<rparr>
      else \<lparr> resp = Throw 500 (''Authentication failed: '' @ message err), store = db,
             effects = sofar @ [ConsoleError ''Firebase authentication error:'' (message err)] \<rparr>)"

definition signinCustomer ::
  "login_env \<Rightarrow> string option \<Rightarrow> string option \<Rightarrow> user list \<Rightarrow> outcome" where
  "signinCustomer env reqEmail reqPassword db =
     (if \<not> truthy reqEmail \<or> \<not> truthy reqPassword
      then \<lparr> resp = Throw 400 ''Email and password are required'', store = db, effects = [] \<rparr>
      else
        (let e = str reqEmail; p = str reqPassword in
         case findOne (byEmail e) db of
           None \<Rightarrow>
             \<lparr> resp = Throw 401 invalidLoginMsg, store = db, effects = [FindOneByEmail e] \<rparr>
         | Some (i, u) \<Rightarrow>
             (if \<not> isVerified u
              then \<lparr> resp = Throw 403 unverifiedMsg, store = db, effects = [FindOneByEmail e] \<rparr>
              else
                (case firebaseSignIn env of
                   Inl err \<Rightarrow> signinCatch err db [FindOneByEmail e, FirebaseSignIn e p]
                 | Inr uid \<Rightarrow>
                     (case idTokenResult env of
                        Inl err \<Rightarrow>
                          signinCatch err db [FindOneByEmail e, FirebaseSignIn e p, GetIdToken]
                      | Inr idToken \<Rightarrow>
                          \<lparr> resp = Json 200 (LoginBody True ''Login successful'' i (email u)
                                     (name u) (username u) idToken),
                            store = db,
                            effects = [FindOneByEmail e, FirebaseSignIn e p, GetIdToken] \<rparr>)))))"

subsection \<open>Sample inputs\<close>

text \<open>A registration environment in which every outside call resolves, and a login one.\<close>

definition exampleEnv :: reg_env where
  "exampleEnv =
     \<lparr> regNow = 1000, bcryptDigest = ''$2b$10$digest'', randomHex = ''ab12'',
       firebaseCreate = Inr ''uid1'', mongoCreate = None, smtp = Inr ''mid1'',
       backendUrl = None \<rparr>"

definition exampleLogin :: login_env where
  "exampleLogin = \<lparr> firebaseSignIn = Inr ''uid1'', idTokenResult = Inr ''jwt'' \<rparr>"

text \<open>
  A document as registration leaves it (token \<open>ab12\<close>, issued at clock reading 1000), the
  same document after verification, and one whose address differs from it in letter case.
\<close>

definition pendingUser :: user where
  "pendingUser = newUserObject ''a@x.com'' ''$2b$10$digest'' None None ''ab12'' (plus24h 1000)"

definition verifiedUser :: user where
  "verifiedUser = markVerified pendingUser"

definition upperUser :: user where
  "upperUser = newUserObject ''A@x.com'' ''$2b$10$digest'' None None ''cd34'' (plus24h 1000)"

text \<open>Two Firebase errors: a rejected password and an unreachable service.\<close>

definition wrongPassword :: fb_error where
  "wrongPassword =
     \<lparr> code = ''auth/wrong-password'', message = ''Firebase: Error (auth/wrong-password).'' \<rparr>"

definition networkDown :: fb_error where
  "networkDown =
     \<lparr> code = ''auth/network-request-failed'',
       message = ''Firebase: Error (auth/network-request-failed).'' \<rparr>"

subsection \<open>Notions used to state the properties\<close>

text \<open>
  The invariant of a stored account: a verified account carries neither a token nor an
  expiry.
\<close>

definition accountInvariant :: "user \<Rightarrow> bool" where
  "accountInvariant u =
     (isVerified u \<longrightarrow> verificationToken u = None \<and> verificationTokenExpires u = None)"

text \<open>ASCII case folding, to compare two addresses without regard to letter case.\<close>

definition lowerChar :: "char \<Rightarrow> char" where
  "lowerChar c =
     (if 65 \<le> (of_char c :: nat) \<and> (of_char c :: nat) \<le> 90
      then char_of ((of_char c :: nat) + 32) else c)"

definition lower :: "string \<Rightarrow> string" where
  "lower s = map lowerChar s"

text \<open>Kinds of effects: writes to the record store, and calls to the credential provider.\<close>

definition isUserCreate :: "effect \<Rightarrow> bool" where
  "isUserCreate x = (case x of UserCreate d \<Rightarrow> True | _ \<Rightarrow> False)"

definition isUserSave :: "effect \<Rightarrow> bool" where
  "isUserSave x = (case x of UserSave i d \<Rightarrow> True | _ \<Rightarrow> False)"

definition isProviderCall :: "effect \<Rightarrow> bool" where
  "isProviderCall x =
     (case x of FirebaseCreateUser e p \<Rightarrow> True | FirebaseSignIn e p \<Rightarrow> True
      | GetIdToken \<Rightarrow> True | _ \<Rightarrow> False)"

section \<open>Properties\<close>

subsection \<open>Lookup in the record store\<close>

lemma findOneFrom_None: "(findOneFrom k P db = None) = (\<forall>u\<in>set db. \<not> P u)"
  by (induction db arbitrary: k) auto

lemma findOneFrom_Some:
  "findOneFrom k P db = Some (i, u) \<Longrightarrow>
     k \<le> i \<and> i - k < length db \<and> db ! (i - k) = u \<and> P u \<and> (\<forall>j<i - k. \<not> P (db ! j))"
proof (induction db arbitrary: k)
  case Nil
  then show ?case by simp
next
  case (Cons a db)
  show ?case
  proof (cases "P a")
    case True
    with Cons.prems show ?thesis by simp
  next
    case False
    with Cons.prems have r: "findOneFrom (Suc k) P db = Some (i, u)" by simp
    from Cons.IH[OF r] have h: "Suc k \<le> i" "i - Suc k < length db" "db ! (i - Suc k) = u" "P u"
      "\<forall>j<i - Suc k. \<not> P (db ! j)" by auto
    from h(1) have e: "i - k = Suc (i - Suc k)" by arith
    show ?thesis using h False unfolding e by (auto simp: nth_Cons split: nat.splits)
  qed
qed

lemma findOne_None: "(findOne P db = None) = (\<forall>u\<in>set db. \<not> P u)"
  by (simp add: findOne_def findOneFrom_None)

lemma findOne_Some:
  "findOne P db = Some (i, u) \<Longrightarrow>
     i < length db \<and> db ! i = u \<and> P u \<and> (\<forall>j<i. \<not> P (db ! j))"
  using findOneFrom_Some[of 0 P db i u] by (simp add: findOne_def)

lemma findOneFrom_append:
  "findOneFrom k P (xs @ ys) =
     (case findOneFrom k P xs of Some r \<Rightarrow> Some r | None \<Rightarrow> findOneFrom (k + length xs) P ys)"
  by (induction xs arbitrary: k) (auto split: option.splits)

lemma findOne_first:
  "i < length db \<Longrightarrow> P (db ! i) \<Longrightarrow> \<forall>j<i. \<not> P (db ! j) \<Longrightarrow> findOne P db = Some (i, db ! i)"
proof -
  assume a: "i < length db" "P (db ! i)" "\<forall>j<i. \<not> P (db ! j)"
  then have "\<exists>u\<in>set db. P u" by (metis nth_mem)
  then obtain r where r: "findOne P db = Some r" using findOne_None[of P db] by (cases "findOne P db") auto
  obtain i' u' where p: "r = (i', u')" by (cases r)
  from findOne_Some[OF r[unfolded p]] have h: "i' < length db" "db ! i' = u'" "P u'" "\<forall>j<i'. \<not> P (db ! j)" by auto
  have "i' = i" using a h by (metis linorder_neqE_nat)
  then show ?thesis using r p h by simp
qed

lemma findOne_snoc:
  "\<forall>u\<in>set db. \<not> P u \<Longrightarrow> P d \<Longrightarrow> findOne P (db @ [d]) = Some (length db, d)"
  by (simp add: findOne_def findOneFrom_append findOneFrom_None[THEN iffD2])

lemma findOne_email_None: "(findOne (byEmail e) db = None) = (\<forall>u\<in>set db. email u \<noteq> e)"
  by (simp add: findOne_None byEmail_def)

lemma findOne_email_found:
  "\<exists>u\<in>set db. email u = e \<Longrightarrow> \<exists>r. findOne (byEmail e) db = Some r"
  using findOne_email_None[of e db] by (cases "findOne (byEmail e) db") auto

lemma byLiveToken_iff:
  "byLiveToken t now u =
     (verificationToken u = Some t \<and> (\<exists>x. verificationTokenExpires u = Some x \<and> now < x))"
  by (simp add: byLiveToken_def split: option.splits)

subsection \<open>The branches of the three operations\<close>

lemma register_ok:
  assumes "truthy reqEmail" "truthy reqPassword"
    and "\<forall>u\<in>set db. email u \<noteq> str reqEmail"
    and "firebaseCreate env = Inr uid" "mongoCreate env = None"
  shows "resp (registerUser env reqEmail reqPassword reqUsername reqPhone db) =
           Json 200 (RegisterBody registeredMsg True)"
    and "store (registerUser env reqEmail reqPassword reqUsername reqPhone db) =
           db @ [newUserObject (str reqEmail) (bcryptDigest env) reqUsername reqPhone
                   (randomHex env) (plus24h (regNow env))]"
proof -
  have n: "findOne (byEmail (str reqEmail)) db = None"
    using assms(3) by (simp add: findOne_None byEmail_def)
  show "resp (registerUser env reqEmail reqPassword reqUsername reqPhone db) =
           Json 200 (RegisterBody registeredMsg True)"
    using assms n by (simp add: registerUser_def registerChecked_def Let_def)
  show "store (registerUser env reqEmail reqPassword reqUsername reqPhone db) =
           db @ [newUserObject (str reqEmail) (bcryptDigest env) reqUsername reqPhone
                   (randomHex env) (plus24h (regNow env))]"
    using assms n by (simp add: registerUser_def registerChecked_def Let_def)
qed

lemma register_provider_fails:
  assumes "truthy reqEmail" and "truthy reqPassword"
    and "\<forall>u\<in>set db. email u \<noteq> str reqEmail"
    and "firebaseCreate env = Inl err"
  shows "registerUser env reqEmail reqPassword reqUsername reqPhone db =
           \<lparr> resp = (if code err = ''auth/email-already-in-use'' then Throw 400 userExistsMsg
                     else Throw 500 (''Error creating Firebase user: '' @ message err)),
             store = db,
             effects = [FindOneByEmail (str reqEmail), BcryptHash (str reqPassword) 10,
                        FirebaseCreateUser (str reqEmail) (str reqPassword),
                        ConsoleError ''Firebase user creation error:'' (message err)] \<rparr>"
  using assms
  by (simp add: registerUser_def registerChecked_def Let_def findOne_email_None[THEN iffD2])


lemma register_store_cases:
  "store (registerUser env reqEmail reqPassword reqUsername reqPhone db) = db \<or>
   store (registerUser env reqEmail reqPassword reqUsername reqPhone db) =
     db @ [newUserObject (str reqEmail) (bcryptDigest env) reqUsername reqPhone
             (randomHex env) (plus24h (regNow env))]"
  by (simp add: registerUser_def registerChecked_def Let_def split: option.splits sum.splits)

lemma signin_store: "store (signinCustomer env reqEmail reqPassword db) = db"
  by (simp add: signinCustomer_def signinCatch_def Let_def split: option.splits sum.splits prod.splits)

lemma verify_cases:
  "(resp (verifyEmail now reqToken db) = Send 400 TokenRequiredPage \<and> \<not> truthy reqToken
      \<and> store (verifyEmail now reqToken db) = db \<and> effects (verifyEmail now reqToken db) = [])
   \<or> (resp (verifyEmail now reqToken db) = Send 400 InvalidTokenPage \<and> truthy reqToken
      \<and> store (verifyEmail now reqToken db) = db
      \<and> effects (verifyEmail now reqToken db) = [FindOneByToken (str reqToken) now])
   \<or> (\<exists>i<length db. resp (verifyEmail now reqToken db) = Send 200 VerifiedPage \<and> truthy reqToken
      \<and> byLiveToken (str reqToken) now (db ! i)
      \<and> store (verifyEmail now reqToken db) = db[i := markVerified (db ! i)]
      \<and> effects (verifyEmail now reqToken db) =
           [FindOneByToken (str reqToken) now, UserSave i (markVerified (db ! i))])"
proof (cases "truthy reqToken")
  case False
  then show ?thesis by (simp add: verifyEmail_def)
next
  case True
  show ?thesis
  proof (cases "findOne (byLiveToken (str reqToken) now) db")
    case None
    with True show ?thesis by (simp add: verifyEmail_def)
  next
    case (Some r)
    obtain i u where r: "r = (i, u)" by (cases r)
    from findOne_Some[OF Some[unfolded r]]
    have h: "i < length db" "db ! i = u" "byLiveToken (str reqToken) now u" by auto
    have "resp (verifyEmail now reqToken db) = Send 200 VerifiedPage \<and> truthy reqToken
      \<and> byLiveToken (str reqToken) now (db ! i)
      \<and> store (verifyEmail now reqToken db) = db[i := markVerified (db ! i)]
      \<and> effects (verifyEmail now reqToken db) =
           [FindOneByToken (str reqToken) now, UserSave i (markVerified (db ! i))]"
      using True Some r h by (simp add: verifyEmail_def)
    with h(1) show ?thesis by blast
  qed
qed

lemma verifyEmail_hit:
  "t \<noteq> [] \<Longrightarrow> findOne (byLiveToken t now) db = Some (i, u) \<Longrightarrow>
     verifyEmail now (Some t) db =
       \<lparr> resp = Send 200 VerifiedPage, store = db[i := markVerified u],
         effects = [FindOneByToken t now, UserSave i (markVerified u)] \<rparr>"
  by (simp add: verifyEmail_def)

lemma verifyEmail_miss:
  "t \<noteq> [] \<Longrightarrow> findOne (byLiveToken t now) db = None \<Longrightarrow>
     verifyEmail now (Some t) db =
       \<lparr> resp = Send 400 InvalidTokenPage, store = db, effects = [FindOneByToken t now] \<rparr>"
  by (simp add: verifyEmail_def)

lemma signin_missing:
  "truthy reqEmail \<Longrightarrow> truthy reqPassword \<Longrightarrow> findOne (byEmail (str reqEmail)) db = None \<Longrightarrow>
     signinCustomer env reqEmail reqPassword db =
       \<lparr> resp = Throw 401 invalidLoginMsg, store = db, effects = [FindOneByEmail (str reqEmail)] \<rparr>"
  by (simp add: signinCustomer_def Let_def)

lemma signin_unverified:
  "truthy reqEmail \<Longrightarrow> truthy reqPassword \<Longrightarrow> findOne (byEmail (str reqEmail)) db = Some (i, u) \<Longrightarrow>
     \<not> isVerified u \<Longrightarrow>
     signinCustomer env reqEmail reqPassword db =
       \<lparr> resp = Throw 403 unverifiedMsg, store = db, effects = [FindOneByEmail (str reqEmail)] \<rparr>"
  by (simp add: signinCustomer_def Let_def)

lemma signin_effects_head:
  "effects (signinCustomer env reqEmail reqPassword db) = [] \<or>
   (\<exists>rest. effects (signinCustomer env reqEmail reqPassword db) =
              FindOneByEmail (str reqEmail) # rest)"
  by (simp add: signinCustomer_def signinCatch_def Let_def
      split: option.splits sum.splits prod.splits)

lemma signin_provider_only_verified:
  assumes "\<exists>x\<in>set (effects (signinCustomer env reqEmail reqPassword db)). isProviderCall x"
  shows "\<exists>i u. findOne (byEmail (str reqEmail)) db = Some (i, u) \<and> isVerified u"
proof (cases "truthy reqEmail \<and> truthy reqPassword")
  case False
  with assms show ?thesis by (auto simp: signinCustomer_def)
next
  case True
  show ?thesis
  proof (cases "findOne (byEmail (str reqEmail)) db")
    case None
    with True assms show ?thesis by (simp add: signin_missing isProviderCall_def)
  next
    case (Some r)
    obtain i u where r: "r = (i, u)" by (cases r)
    show ?thesis
    proof (cases "isVerified u")
      case False
      with True assms Some r show ?thesis by (simp add: signin_unverified isProviderCall_def)
    next
      case v: True
      with Some r show ?thesis by simp
    qed
  qed
qed


lemma invariant_new: "accountInvariant (newUserObject e h un ph t x)"
  by (simp add: accountInvariant_def newUserObject_def)

lemma invariant_marked: "accountInvariant (markVerified u)"
  by (simp add: accountInvariant_def markVerified_def)

lemma lower_example: "lower ''A@x.com'' = lower ''a@x.com''"
  by code_simp

section \<open>The claims\<close>

subsection \<open>Registration followed by login\<close>

text \<open>
  C1. A registration with a present email that no stored document has, a present password,
  and Firebase and MongoDB creations that resolve, is acknowledged with status 200 and
  appends one document with \<open>isVerified = false\<close>; a login with that email and any present password on the
  resulting store is answered with status 403 and the verify-your-email message.
\<close>

theorem register_then_login_unverified:
  assumes "truthy reqEmail" and "truthy reqPassword" and "truthy loginPassword"
    and "\<forall>u\<in>set db. email u \<noteq> str reqEmail"
    and "firebaseCreate env = Inr uid" and "mongoCreate env = None"
  shows "\<exists>doc. resp (registerUser env reqEmail reqPassword reqUsername reqPhone db) =
               Json 200 (RegisterBody registeredMsg True)
           \<and> store (registerUser env reqEmail reqPassword reqUsername reqPhone db) = db @ [doc]
           \<and> email doc = str reqEmail \<and> \<not> isVerified doc
           \<and> resp (signinCustomer lenv reqEmail loginPassword
                   (store (registerUser env reqEmail reqPassword reqUsername reqPhone db))) =
               Throw 403 unverifiedMsg"
proof -
  let ?doc = "newUserObject (str reqEmail) (bcryptDigest env) reqUsername reqPhone
                (randomHex env) (plus24h (regNow env))"
  have s: "store (registerUser env reqEmail reqPassword reqUsername reqPhone db) = db @ [?doc]"
    using register_ok(2)[OF assms(1,2,4,5,6)] .
  have r: "resp (registerUser env reqEmail reqPassword reqUsername reqPhone db) =
             Json 200 (RegisterBody registeredMsg True)"
    using register_ok(1)[OF assms(1,2,4,5,6)] .
  have e: "email ?doc = str reqEmail" and v: "\<not> isVerified ?doc"
    by (simp_all add: newUserObject_def)
  have f: "findOne (byEmail (str reqEmail)) (db @ [?doc]) = Some (length db, ?doc)"
    using assms(4) e by (intro findOne_snoc) (simp_all add: byEmail_def)
  have l: "resp (signinCustomer lenv reqEmail loginPassword (db @ [?doc])) = Throw 403 unverifiedMsg"
    using assms(1,3) f v by (simp add: signinCustomer_def Let_def)
  show ?thesis using r s e v l by (intro exI[of _ ?doc]) simp
qed

theorem register_then_login_unverified_witness:
  "resp (registerUser exampleEnv (Some ''a@x.com'') (Some ''secret1'') None None []) =
     Json 200 (RegisterBody registeredMsg True)
   \<and> store (registerUser exampleEnv (Some ''a@x.com'') (Some ''secret1'') None None []) \<noteq> []
   \<and> resp (signinCustomer exampleLogin (Some ''a@x.com'') (Some ''secret1'')
          (store (registerUser exampleEnv (Some ''a@x.com'') (Some ''secret1'') None None []))) =
       Throw 403 unverifiedMsg"
  using register_then_login_unverified [of "Some ''a@x.com''" "Some ''secret1''" "Some ''secret1''" "[]"
      exampleEnv "''uid1''" None None exampleLogin]
  by (auto simp add: exampleEnv_def)

subsection \<open>Verification\<close>

text \<open>
  C2. For a present token, verification answers with the success page exactly when some
  stored document holds that token with an expiry strictly later than the clock reading;
  in every other case (no document holds the token, or the expiry is not later than the
  clock reading) it answers with one and the same status-400 page.
\<close>

theorem verify_succeeds_iff_live_token:
  assumes "t \<noteq> []"
  shows "resp (verifyEmail now (Some t) db) =
           (if \<exists>u\<in>set db. verificationToken u = Some t \<and>
                  (\<exists>x. verificationTokenExpires u = Some x \<and> now < x)
            then Send 200 VerifiedPage else Send 400 InvalidTokenPage)"
proof (cases "findOne (byLiveToken t now) db")
  case None
  then have "\<forall>u\<in>set db. \<not> byLiveToken t now u" by (simp add: findOne_None)
  then have "\<not> (\<exists>u\<in>set db. verificationToken u = Some t \<and>
                  (\<exists>x. verificationTokenExpires u = Some x \<and> now < x))"
    by (simp add: byLiveToken_iff)
  then show ?thesis using verifyEmail_miss[OF assms None] by simp
next
  case (Some r)
  obtain i u where r: "r = (i, u)" by (cases r)
  from findOne_Some[OF Some[unfolded r]] have "i < length db" "db ! i = u" "byLiveToken t now u"
    by auto
  then have "\<exists>u\<in>set db. byLiveToken t now u" by (metis nth_mem)
  then have "\<exists>u\<in>set db. verificationToken u = Some t \<and>
                  (\<exists>x. verificationTokenExpires u = Some x \<and> now < x)"
    by (simp add: byLiveToken_iff)
  then show ?thesis using verifyEmail_hit[OF assms Some[unfolded r]] by simp
qed

theorem verify_succeeds_iff_live_token_witness:
  "resp (verifyEmail 2000 (Some ''ab12'') [pendingUser]) = Send 200 VerifiedPage
   \<and> resp (verifyEmail (plus24h 1000) (Some ''ab12'') [pendingUser]) = Send 400 InvalidTokenPage
   \<and> resp (verifyEmail 2000 (Some ''ab13'') [pendingUser]) = Send 400 InvalidTokenPage"
  using verify_succeeds_iff_live_token [of "''ab12''" 2000 "[pendingUser]"]
    verify_succeeds_iff_live_token [of "''ab12''" "plus24h 1000" "[pendingUser]"]
    verify_succeeds_iff_live_token [of "''ab13''" 2000 "[pendingUser]"]
  by (simp add: pendingUser_def newUserObject_def plus24h_def)

text \<open>
  C3. For an unverified document holding a token with a later expiry, a token that no other
  stored document holds (tokens are 32 random bytes), the first verification with that
  token answers with the success page and rewrites that document alone; a second
  verification with the same token on the resulting store, at any clock reading, answers
  with the status-400 invalid-token page.
\<close>

theorem verify_replay_rejected:
  assumes "i < length db"
    and "\<not> isVerified (db ! i)"
    and "verificationToken (db ! i) = Some t" and "t \<noteq> []"
    and "verificationTokenExpires (db ! i) = Some x" and "now < x"
    and "\<forall>j<length db. j \<noteq> i \<longrightarrow> verificationToken (db ! j) \<noteq> Some t"
  shows "resp (verifyEmail now (Some t) db) = Send 200 VerifiedPage
         \<and> store (verifyEmail now (Some t) db) = db[i := markVerified (db ! i)]
         \<and> resp (verifyEmail later (Some t) (store (verifyEmail now (Some t) db))) =
             Send 400 InvalidTokenPage"
proof -
  have live: "byLiveToken t now (db ! i)" using assms(3,5,6) by (simp add: byLiveToken_iff)
  have before: "\<forall>j<i. \<not> byLiveToken t now (db ! j)"
    using assms(1,7) by (auto simp: byLiveToken_iff)
  have f: "findOne (byLiveToken t now) db = Some (i, db ! i)"
    using findOne_first[OF assms(1) live before] .
  have first: "verifyEmail now (Some t) db =
       \<lparr> resp = Send 200 VerifiedPage, store = db[i := markVerified (db ! i)],
         effects = [FindOneByToken t now, UserSave i (markVerified (db ! i))] \<rparr>"
    using verifyEmail_hit[OF assms(4) f] .
  have "\<forall>u\<in>set (db[i := markVerified (db ! i)]). \<not> byLiveToken t later u"
  proof
    fix u assume "u \<in> set (db[i := markVerified (db ! i)])"
    then obtain j where j: "j < length db" "u = db[i := markVerified (db ! i)] ! j"
      by (auto simp: in_set_conv_nth)
    show "\<not> byLiveToken t later u"
    proof (cases "j = i")
      case True
      then have "u = markVerified (db ! i)" using j by simp
      then show ?thesis by (simp add: byLiveToken_iff markVerified_def)
    next
      case False
      then have "u = db ! j" using j by simp
      then show ?thesis using assms(7) j(1) False by (simp add: byLiveToken_iff)
    qed
  qed
  then have "findOne (byLiveToken t later) (db[i := markVerified (db ! i)]) = None"
    by (simp add: findOne_None)
  then have second: "resp (verifyEmail later (Some t) (db[i := markVerified (db ! i)])) =
       Send 400 InvalidTokenPage"
    using verifyEmail_miss[OF assms(4)] by simp
  show ?thesis using first second by simp
qed

theorem verify_replay_rejected_witness:
  "resp (verifyEmail 2000 (Some ''ab12'') [pendingUser]) = Send 200 VerifiedPage
   \<and> resp (verifyEmail 3000 (Some ''ab12'') (store (verifyEmail 2000 (Some ''ab12'') [pendingUser]))) =
       Send 400 InvalidTokenPage"
proof -
  have h1: "(0::nat) < length [pendingUser]" by simp
  have h2: "\<not> isVerified ([pendingUser] ! 0)"
    and h3: "verificationToken ([pendingUser] ! 0) = Some ''ab12''"
    and h5: "verificationTokenExpires ([pendingUser] ! 0) = Some (plus24h 1000)"
    by (simp_all add: pendingUser_def newUserObject_def)
  have h4: "''ab12'' \<noteq> []" by simp
  have h6: "(2000::int) < plus24h 1000" by (simp add: plus24h_def)
  have h7: "\<forall>j<length [pendingUser]. j \<noteq> 0 \<longrightarrow> verificationToken ([pendingUser] ! j) \<noteq> Some ''ab12''"
    by simp
  show ?thesis
    using verify_replay_rejected [OF h1 h2 h3 h4 h5 h6 h7, of 3000] by blast
qed

subsection \<open>The account invariant\<close>

text \<open>
  C4. Registration, verification and login each keep the invariant that a verified account
  has neither token nor expiry; login leaves the store as it is; and a verification that
  answers with the success page changes one document, by one save, setting
  \<open>isVerified\<close> and clearing both token fields.
\<close>

theorem operations_preserve_invariant:
  assumes "\<forall>u\<in>set db. accountInvariant u"
  shows "(\<forall>u\<in>set (store (registerUser env reqEmail reqPassword reqUsername reqPhone db)).
            accountInvariant u)
       \<and> (\<forall>u\<in>set (store (verifyEmail now reqToken db)). accountInvariant u)
       \<and> store (signinCustomer lenv loginEmail loginPassword db) = db
       \<and> (resp (verifyEmail now reqToken db) = Send 200 VerifiedPage \<longrightarrow>
            (\<exists>i<length db.
               store (verifyEmail now reqToken db) =
                 db[i := (db ! i)\<lparr> isVerified := True, verificationToken := None,
                                    verificationTokenExpires := None \<rparr>]
               \<and> length (filter isUserSave (effects (verifyEmail now reqToken db))) = 1))"
proof -
  have a: "\<forall>u\<in>set (store (registerUser env reqEmail reqPassword reqUsername reqPhone db)).
            accountInvariant u"
    using register_store_cases[of env reqEmail reqPassword reqUsername reqPhone db] assms
    by (auto simp: invariant_new)
  have b: "\<forall>u\<in>set (store (verifyEmail now reqToken db)). accountInvariant u"
  proof
    fix u assume u: "u \<in> set (store (verifyEmail now reqToken db))"
    from verify_cases[of now reqToken db]
    consider "store (verifyEmail now reqToken db) = db"
      | i where "store (verifyEmail now reqToken db) = db[i := markVerified (db ! i)]"
      by blast
    then show "accountInvariant u"
    proof cases
      case 1
      with u assms show ?thesis by simp
    next
      case (2 i)
      with u have "u \<in> insert (markVerified (db ! i)) (set db)"
        using set_update_subset_insert[of db i "markVerified (db ! i)"] by auto
      then show ?thesis using assms invariant_marked by auto
    qed
  qed
  have c: "resp (verifyEmail now reqToken db) = Send 200 VerifiedPage \<longrightarrow>
            (\<exists>i<length db.
               store (verifyEmail now reqToken db) =
                 db[i := (db ! i)\<lparr> isVerified := True, verificationToken := None,
                                    verificationTokenExpires := None \<rparr>]
               \<and> length (filter isUserSave (effects (verifyEmail now reqToken db))) = 1)"
    using verify_cases[of now reqToken db]
    by (auto simp: markVerified_def isUserSave_def)
  show ?thesis using a b c signin_store by blast
qed

theorem operations_preserve_invariant_witness:
  "isVerified (store (verifyEmail 2000 (Some ''ab12'') [pendingUser]) ! 0)
   \<and> verificationToken (store (verifyEmail 2000 (Some ''ab12'') [pendingUser]) ! 0) = None
   \<and> verificationTokenExpires (store (verifyEmail 2000 (Some ''ab12'') [pendingUser]) ! 0) = None
   \<and> store (signinCustomer exampleLogin (Some ''a@x.com'') (Some ''secret1'') [pendingUser]) =
       [pendingUser]"
proof -
  have h: "\<forall>u\<in>set [pendingUser]. accountInvariant u"
    by (simp add: accountInvariant_def pendingUser_def newUserObject_def)
  have v: "isVerified (store (verifyEmail 2000 (Some ''ab12'') [pendingUser]) ! 0)"
    and m: "store (verifyEmail 2000 (Some ''ab12'') [pendingUser]) ! 0
              \<in> set (store (verifyEmail 2000 (Some ''ab12'') [pendingUser]))"
    by (simp_all add: verifyEmail_def findOne_def byLiveToken_def pendingUser_def
        newUserObject_def plus24h_def markVerified_def)
  from operations_preserve_invariant [OF h, of exampleEnv "Some ''b@x.com''" "Some ''secret2''"
        None None 2000 "Some ''ab12''" exampleLogin "Some ''a@x.com''" "Some ''secret1''"]
  have i: "\<forall>u\<in>set (store (verifyEmail 2000 (Some ''ab12'') [pendingUser])). accountInvariant u"
    and s: "store (signinCustomer exampleLogin (Some ''a@x.com'') (Some ''secret1'') [pendingUser]) =
       [pendingUser]"
    by blast+
  from i m have "accountInvariant (store (verifyEmail 2000 (Some ''ab12'') [pendingUser]) ! 0)"
    by blast
  with v s show ?thesis by (simp add: accountInvariant_def)
qed

subsection \<open>Duplicate registration\<close>

text \<open>
  C5, as the controller has it. The controller sends the address to the lookup filter
  unchanged and folds no case. A registration with present fields answers with status 400
  and the already-exists message, and leaves the store as it is, when a stored document
  has exactly the address sent, or when Firebase reports the address as already in use.
\<close>

theorem register_duplicate_exact:
  assumes "truthy reqEmail" and "truthy reqPassword"
    and "(\<exists>u\<in>set db. email u = str reqEmail)
         \<or> (\<exists>err. firebaseCreate env = Inl err \<and> code err = ''auth/email-already-in-use'')"
  shows "resp (registerUser env reqEmail reqPassword reqUsername reqPhone db) =
           Throw 400 userExistsMsg
         \<and> store (registerUser env reqEmail reqPassword reqUsername reqPhone db) = db"
proof (cases "findOne (byEmail (str reqEmail)) db")
  case (Some r)
  with assms(1,2) show ?thesis by (simp add: registerUser_def registerChecked_def)
next
  case None
  then have "\<not> (\<exists>u\<in>set db. email u = str reqEmail)" by (simp add: findOne_email_None)
  with assms(3) obtain err where "firebaseCreate env = Inl err"
    "code err = ''auth/email-already-in-use''" by blast
  with assms(1,2) None show ?thesis by (simp add: registerUser_def registerChecked_def Let_def)
qed

theorem register_duplicate_exact_witness:
  "resp (registerUser exampleEnv (Some ''a@x.com'') (Some ''secret1'') None None [pendingUser]) =
     Throw 400 userExistsMsg
   \<and> resp (registerUser
        (exampleEnv\<lparr> firebaseCreate := Inl \<lparr> code = ''auth/email-already-in-use'',
                                                message = ''Firebase: Error'' \<rparr> \<rparr>)
        (Some ''a@x.com'') (Some ''secret1'') None None []) = Throw 400 userExistsMsg"
proof -
  have a: "truthy (Some ''a@x.com'')" and b: "truthy (Some ''secret1'')" by simp_all
  have c: "(\<exists>u\<in>set [pendingUser]. email u = str (Some ''a@x.com''))
         \<or> (\<exists>err. firebaseCreate exampleEnv = Inl err \<and> code err = ''auth/email-already-in-use'')"
    by (simp add: pendingUser_def newUserObject_def)
  have d: "(\<exists>u\<in>set []. email u = str (Some ''a@x.com''))
         \<or> (\<exists>err. firebaseCreate (exampleEnv\<lparr> firebaseCreate := Inl \<lparr> code = ''auth/email-already-in-use'',
                                                message = ''Firebase: Error'' \<rparr> \<rparr>) = Inl err
              \<and> code err = ''auth/email-already-in-use'')"
    by simp
  show ?thesis
    using register_duplicate_exact [OF a b c, of None None]
      register_duplicate_exact [OF a b d, of None None]
    by blast
qed

text \<open>
  An address that differs only in letter case from a stored one is not found by the
  lookup: with a Firebase creation that resolves, a second document is stored and the
  registration is acknowledged.
\<close>

theorem register_case_variant_counterexample:
  "lower (email upperUser) = lower ''a@x.com''
   \<and> resp (registerUser exampleEnv (Some ''a@x.com'') (Some ''secret1'') None None [upperUser]) =
       Json 200 (RegisterBody registeredMsg True)
   \<and> length (store (registerUser exampleEnv (Some ''a@x.com'') (Some ''secret1'') None None
                [upperUser])) = 2"
  using lower_example
  by (simp add: upperUser_def newUserObject_def registerUser_def
      registerChecked_def findOne_def byEmail_def exampleEnv_def Let_def)

subsection \<open>Login\<close>

text \<open>
  C6. With both fields present, login answers with status 401 and the same generic message
  when no stored document has the address and when Firebase rejects the password of a
  verified account. The first effect of a login is the lookup in the record store, and a
  call to the credential provider occurs only after the lookup has returned a verified
  document.
\<close>

theorem login_generic_error_local_first:
  assumes "truthy reqEmail" and "truthy reqPassword"
  shows "((\<forall>u\<in>set db. email u \<noteq> str reqEmail) \<longrightarrow>
            resp (signinCustomer env reqEmail reqPassword db) = Throw 401 invalidLoginMsg)
       \<and> (\<forall>i u err. findOne (byEmail (str reqEmail)) db = Some (i, u) \<and> isVerified u
              \<and> firebaseSignIn env = Inl err
              \<and> (code err = ''auth/wrong-password'' \<or> code err = ''auth/invalid-credential'')
            \<longrightarrow> resp (signinCustomer env reqEmail reqPassword db) = Throw 401 invalidLoginMsg)
       \<and> (\<exists>rest. effects (signinCustomer env reqEmail reqPassword db) =
                    FindOneByEmail (str reqEmail) # rest
              \<and> \<not> isProviderCall (FindOneByEmail (str reqEmail))
              \<and> ((\<exists>x\<in>set rest. isProviderCall x) \<longrightarrow>
                   (\<exists>i u. findOne (byEmail (str reqEmail)) db = Some (i, u) \<and> isVerified u)))"
proof -
  have a: "(\<forall>u\<in>set db. email u \<noteq> str reqEmail) \<longrightarrow>
            resp (signinCustomer env reqEmail reqPassword db) = Throw 401 invalidLoginMsg"
    using assms by (simp add: findOne_email_None[symmetric] signin_missing)
  have b: "\<forall>i u err. findOne (byEmail (str reqEmail)) db = Some (i, u) \<and> isVerified u
              \<and> firebaseSignIn env = Inl err
              \<and> (code err = ''auth/wrong-password'' \<or> code err = ''auth/invalid-credential'')
            \<longrightarrow> resp (signinCustomer env reqEmail reqPassword db) = Throw 401 invalidLoginMsg"
    using assms by (auto simp: signinCustomer_def signinCatch_def Let_def)
  have ne: "effects (signinCustomer env reqEmail reqPassword db) \<noteq> []"
    using assms
    by (simp add: signinCustomer_def signinCatch_def Let_def
        split: option.splits sum.splits prod.splits)
  with signin_effects_head[of env reqEmail reqPassword db]
  obtain rest where rest: "effects (signinCustomer env reqEmail reqPassword db) =
      FindOneByEmail (str reqEmail) # rest" by blast
  have c: "(\<exists>x\<in>set rest. isProviderCall x) \<longrightarrow>
                   (\<exists>i u. findOne (byEmail (str reqEmail)) db = Some (i, u) \<and> isVerified u)"
    using signin_provider_only_verified[of env reqEmail reqPassword db] rest by auto
  have d: "\<not> isProviderCall (FindOneByEmail (str reqEmail))" by (simp add: isProviderCall_def)
  show ?thesis using a b rest c d by blast
qed

theorem login_generic_error_local_first_witness:
  "resp (signinCustomer exampleLogin (Some ''a@x.com'') (Some ''secret1'') []) =
     Throw 401 invalidLoginMsg
   \<and> resp (signinCustomer (exampleLogin\<lparr> firebaseSignIn := Inl wrongPassword \<rparr>)
        (Some ''a@x.com'') (Some ''wrong'') [verifiedUser]) = Throw 401 invalidLoginMsg"
proof -
  have a: "truthy (Some ''a@x.com'')" and b: "truthy (Some ''secret1'')"
    and b': "truthy (Some ''wrong'')" by simp_all
  have f: "findOne (byEmail (str (Some ''a@x.com''))) [verifiedUser] = Some (0, verifiedUser)
           \<and> isVerified verifiedUser
           \<and> firebaseSignIn (exampleLogin\<lparr> firebaseSignIn := Inl wrongPassword \<rparr>) = Inl wrongPassword
           \<and> (code wrongPassword = ''auth/wrong-password''
               \<or> code wrongPassword = ''auth/invalid-credential'')"
    by (simp add: findOne_def byEmail_def verifiedUser_def markVerified_def pendingUser_def
        newUserObject_def wrongPassword_def)
  have e: "\<forall>u\<in>set []. email u \<noteq> str (Some ''a@x.com'')" by simp
  show ?thesis
    using login_generic_error_local_first [OF a b, of "[]" exampleLogin] e
      login_generic_error_local_first [OF a b', of "[verifiedUser]"
        "exampleLogin\<lparr> firebaseSignIn := Inl wrongPassword \<rparr>"] f
    by blast
qed

subsection \<open>Failures during registration\<close>

text \<open>
  C7. When the Firebase creation rejects, the store is left as it is and no
  \<open>User.create\<close> is issued; the code \<open>auth/email-already-in-use\<close> gives status 400
  with the already-exists message, every other code gives status 500.
\<close>

theorem provider_failure_aborts_registration:
  assumes "truthy reqEmail" and "truthy reqPassword"
    and "\<forall>u\<in>set db. email u \<noteq> str reqEmail"
    and "firebaseCreate env = Inl err"
  shows "store (registerUser env reqEmail reqPassword reqUsername reqPhone db) = db
       \<and> \<not> (\<exists>x\<in>set (effects (registerUser env reqEmail reqPassword reqUsername reqPhone db)).
               isUserCreate x)
       \<and> (code err = ''auth/email-already-in-use'' \<longrightarrow>
            resp (registerUser env reqEmail reqPassword reqUsername reqPhone db) =
              Throw 400 userExistsMsg)
       \<and> (code err \<noteq> ''auth/email-already-in-use'' \<longrightarrow>
            status (resp (registerUser env reqEmail reqPassword reqUsername reqPhone db)) = 500
            \<and> resp (registerUser env reqEmail reqPassword reqUsername reqPhone db) =
                Throw 500 (''Error creating Firebase user: '' @ message err))"
  unfolding register_provider_fails[OF assms] by (simp add: isUserCreate_def)

theorem provider_failure_aborts_registration_witness:
  "store (registerUser (exampleEnv\<lparr> firebaseCreate := Inl networkDown \<rparr>)
       (Some ''a@x.com'') (Some ''secret1'') None None []) = []
   \<and> status (resp (registerUser (exampleEnv\<lparr> firebaseCreate := Inl networkDown \<rparr>)
       (Some ''a@x.com'') (Some ''secret1'') None None [])) = 500"
proof -
  have a: "truthy (Some ''a@x.com'')" and b: "truthy (Some ''secret1'')" by simp_all
  have c: "\<forall>u\<in>set []. email u \<noteq> str (Some ''a@x.com'')" by simp
  have d: "firebaseCreate (exampleEnv\<lparr> firebaseCreate := Inl networkDown \<rparr>) = Inl networkDown"
    by simp
  have e: "code networkDown \<noteq> ''auth/email-already-in-use''" by (simp add: networkDown_def)
  show ?thesis
    using provider_failure_aborts_registration [OF a b c d, of None None] e by blast
qed

text \<open>
  C8. Once the document has been stored, the answer of the registration is the
  acknowledgment with status 200 whatever the mail transport does, the store is the same
  as with any other mail result, and a mail failure appears only on the console.
\<close>

theorem notifier_failure_absorbed:
  assumes "truthy reqEmail" and "truthy reqPassword"
    and "\<forall>u\<in>set db. email u \<noteq> str reqEmail"
    and "firebaseCreate env = Inr uid" and "mongoCreate env = None"
  shows "resp (registerUser (env\<lparr> smtp := mail \<rparr>) reqEmail reqPassword reqUsername reqPhone db) =
           Json 200 (RegisterBody registeredMsg True)
       \<and> store (registerUser (env\<lparr> smtp := mail \<rparr>) reqEmail reqPassword reqUsername reqPhone db) =
           store (registerUser env reqEmail reqPassword reqUsername reqPhone db)
       \<and> (\<forall>m. mail = Inl m \<longrightarrow>
             ConsoleError ''Error sending verification email:''
                 (''Failed to send verification email: '' @ m)
               \<in> set (effects (registerUser (env\<lparr> smtp := mail \<rparr>) reqEmail reqPassword
                                reqUsername reqPhone db)))"
proof -
  have f: "firebaseCreate (env\<lparr> smtp := mail \<rparr>) = Inr uid"
    and g: "mongoCreate (env\<lparr> smtp := mail \<rparr>) = None"
    using assms(4,5) by simp_all
  have r: "resp (registerUser (env\<lparr> smtp := mail \<rparr>) reqEmail reqPassword reqUsername reqPhone db) =
           Json 200 (RegisterBody registeredMsg True)"
    using register_ok(1)[OF assms(1,2,3) f g] .
  have s: "store (registerUser (env\<lparr> smtp := mail \<rparr>) reqEmail reqPassword reqUsername reqPhone db) =
           store (registerUser env reqEmail reqPassword reqUsername reqPhone db)"
    using register_ok(2)[OF assms(1,2,3) f g] register_ok(2)[OF assms] by simp
  have l: "\<forall>m. mail = Inl m \<longrightarrow>
             ConsoleError ''Error sending verification email:''
                 (''Failed to send verification email: '' @ m)
               \<in> set (effects (registerUser (env\<lparr> smtp := mail \<rparr>) reqEmail reqPassword
                                reqUsername reqPhone db))"
    using assms
    by (simp add: registerUser_def registerChecked_def Let_def sendVerificationEmail_def
        findOne_email_None[THEN iffD2])
  show ?thesis using r s l by blast
qed

theorem notifier_failure_absorbed_witness:
  "resp (registerUser (exampleEnv\<lparr> smtp := Inl ''SMTP timeout'' \<rparr>)
       (Some ''a@x.com'') (Some ''secret1'') None None []) =
     Json 200 (RegisterBody registeredMsg True)"
proof -
  have a: "truthy (Some ''a@x.com'')" and b: "truthy (Some ''secret1'')" by simp_all
  have c: "\<forall>u\<in>set []. email u \<noteq> str (Some ''a@x.com'')" by simp
  have d: "firebaseCreate exampleEnv = Inr ''uid1''" and e: "mongoCreate exampleEnv = None"
    by (simp_all add: exampleEnv_def)
  show ?thesis
    using notifier_failure_absorbed [OF a b c d e, of "Inl ''SMTP timeout''" None None] by blast
qed

subsection \<open>What a caught failure tells the caller\<close>




subsection \<open>Failed verification\<close>

text \<open>
  C10. A verification that answers with status 400 (token absent, token held by no
  document, or token expired) leaves the store as it is and issues no save.
\<close>

theorem verify_failure_writes_nothing:
  assumes "status (resp (verifyEmail now reqToken db)) = 400"
  shows "store (verifyEmail now reqToken db) = db
       \<and> \<not> (\<exists>x\<in>set (effects (verifyEmail now reqToken db)). isUserSave x)"
  using verify_cases[of now reqToken db] assms by (auto simp: isUserSave_def)

theorem verify_failure_writes_nothing_witness:
  "status (resp (verifyEmail 2000 None [pendingUser])) = 400
   \<and> store (verifyEmail 2000 None [pendingUser]) = [pendingUser]
   \<and> status (resp (verifyEmail (plus24h 1000) (Some ''ab12'') [pendingUser])) = 400
   \<and> store (verifyEmail (plus24h 1000) (Some ''ab12'') [pendingUser]) = [pendingUser]
   \<and> status (resp (verifyEmail 2000 (Some ''ab13'') [pendingUser])) = 400
   \<and> store (verifyEmail 2000 (Some ''ab13'') [pendingUser]) = [pendingUser]"
proof -
  have a: "status (resp (verifyEmail 2000 None [pendingUser])) = 400"
    by (simp add: verifyEmail_def)
  have b: "status (resp (verifyEmail (plus24h 1000) (Some ''ab12'') [pendingUser])) = 400"
    by (simp add: verifyEmail_def findOne_def byLiveToken_def pendingUser_def newUserObject_def)
  have c: "status (resp (verifyEmail 2000 (Some ''ab13'') [pendingUser])) = 400"
    by (simp add: verifyEmail_def findOne_def byLiveToken_def pendingUser_def newUserObject_def)
  show ?thesis
    using a b c verify_failure_writes_nothing [OF a] verify_failure_writes_nothing [OF b]
      verify_failure_writes_nothing [OF c]
    by blast
qed

end
